theory Spec2Isabelle
  imports Main
begin

section \<open>docker-entrypoint.sh: materialising config.js from the environment\<close>

text \<open>
  The entrypoint writes \<^verbatim>\<open>config.js\<close> from a here-document whose delimiter is unquoted, so
  the shell performs parameter expansion in its body. The three expansions all have the form
  \<^verbatim>\<open>${NAME:-word}\<close>: the value of \<^verbatim>\<open>NAME\<close> if it is set and not empty, the word otherwise.
  The expanded text is inserted as it is (no quoting, no second expansion).
\<close>

type_synonym shell_env = "string \<rightharpoonup> string"

definition expand_default :: "shell_env \<Rightarrow> string \<Rightarrow> string \<Rightarrow> string" where
  "expand_default env name word =
     (case env name of
        None \<Rightarrow> word
      | Some v \<Rightarrow> if v = [] then word else v)"

definition nl :: string where
  "nl = [CHR 0x0A]"

definition sq :: string where
  "sq = [CHR 0x27]"

text \<open>The eight lines of the here-document (lines 7 to 14 of the script), after expansion.\<close>

definition config_js_lines :: "shell_env \<Rightarrow> string list" where
  "config_js_lines env =
     [''window.__APP_CONFIG__ = {'',
      ''  apiUrl: '' @ sq @ expand_default env ''API_URL'' ''https://default.example.com'' @ sq @ '','',
      ''  environment: '' @ sq @ expand_default env ''ENVIRONMENT'' ''production'' @ sq @ '','',
      ''  features: {'',
      ''    enableFeatureX: '' @ expand_default env ''ENABLE_FEATURE_X'' ''false'',
      ''  }'',
      ''};'',
      ''console.log('' @ sq @ ''Runtime config loaded:'' @ sq @ '', window.__APP_CONFIG__);'']"

text \<open>The file written by \<^verbatim>\<open>cat > .../config.js\<close>: every line followed by a newline.\<close>

definition config_js :: "shell_env \<Rightarrow> string" where
  "config_js env = concat (map (\<lambda>l. l @ nl) (config_js_lines env))"

text \<open>The text that the script puts after \<^verbatim>\<open>enableFeatureX: \<close> in the generated file.\<close>

definition emitted_flag :: "shell_env \<Rightarrow> string" where
  "emitted_flag env = drop (length ''    enableFeatureX: '') (config_js_lines env ! 4)"

section \<open>JavaScript values, objects and the page's world\<close>

text \<open>
  Objects live in a heap and are referred to by address, so that "the same object" and "a
  copy" differ. An object is the list of its own properties. The numeric payloads play no
  role: the code only observes \<^verbatim>\<open>typeof\<close> and truthiness.
\<close>

type_synonym addr = nat

datatype jsval =
    JUndefined
  | JNull
  | JBool bool
  | JNum int
  | JNaN
  | JStr string
  | JBigInt int
  | JSymbol nat
  | JFun nat
  | JObj addr

type_synonym jsobj = "(string \<times> jsval) list"

datatype js_error = TypeError | ReferenceError

datatype level = Log | Warn

text \<open>
  \<open>window = None\<close> is an environment where \<^verbatim>\<open>typeof window\<close> is \<^verbatim>\<open>'undefined'\<close> (server
  rendering); otherwise \<open>window\<close> holds the properties of the global object.
\<close>

record world =
  heap :: "jsobj list"
  window :: "jsobj option"
  process_env :: "string \<rightharpoonup> string"
  console :: "(level \<times> string \<times> jsval list) list"

fun js_typeof :: "jsval \<Rightarrow> string" where
  "js_typeof JUndefined = ''undefined''"
| "js_typeof JNull = ''object''"
| "js_typeof (JBool b) = ''boolean''"
| "js_typeof (JNum n) = ''number''"
| "js_typeof JNaN = ''number''"
| "js_typeof (JStr s) = ''string''"
| "js_typeof (JBigInt n) = ''bigint''"
| "js_typeof (JSymbol n) = ''symbol''"
| "js_typeof (JFun n) = ''function''"
| "js_typeof (JObj a) = ''object''"

fun truthy :: "jsval \<Rightarrow> bool" where
  "truthy JUndefined = False"
| "truthy JNull = False"
| "truthy (JBool b) = b"
| "truthy (JNum n) = (n \<noteq> 0)"
| "truthy JNaN = False"
| "truthy (JStr s) = (s \<noteq> [])"
| "truthy (JBigInt n) = (n \<noteq> 0)"
| "truthy (JSymbol n) = True"
| "truthy (JFun n) = True"
| "truthy (JObj a) = True"

definition lookup :: "jsobj \<Rightarrow> string \<Rightarrow> jsval" where
  "lookup obj k = (case map_of obj k of None \<Rightarrow> JUndefined | Some v \<Rightarrow> v)"

text \<open>
  Property read \<^verbatim>\<open>v.k\<close>. Reading a property of \<^verbatim>\<open>null\<close> or \<^verbatim>\<open>undefined\<close> throws a
  TypeError. A missing property reads as \<^verbatim>\<open>undefined\<close>; so does any of the four names used
  here on a primitive or a function, whose prototypes do not define them.
\<close>

fun get_prop :: "jsobj list \<Rightarrow> jsval \<Rightarrow> string \<Rightarrow> js_error + jsval" where
  "get_prop h JUndefined k = Inl TypeError"
| "get_prop h JNull k = Inl TypeError"
| "get_prop h (JObj a) k = Inr (if a < length h then lookup (h ! a) k else JUndefined)"
| "get_prop h v k = Inr JUndefined"

definition alloc :: "jsobj \<Rightarrow> world \<Rightarrow> addr \<times> world" where
  "alloc obj w = (length (heap w), w\<lparr>heap := heap w @ [obj]\<rparr>)"

definition console_log :: "string \<Rightarrow> jsval list \<Rightarrow> world \<Rightarrow> world" where
  "console_log msg args w = w\<lparr>console := console w @ [(Log, msg, args)]\<rparr>"

definition console_warn :: "string \<Rightarrow> jsval list \<Rightarrow> world \<Rightarrow> world" where
  "console_warn msg args w = w\<lparr>console := console w @ [(Warn, msg, args)]\<rparr>"

text \<open>
  The three values a configuration object is read for: \<^verbatim>\<open>c.apiUrl\<close>, \<^verbatim>\<open>c.environment\<close> and
  \<^verbatim>\<open>c.features.enableFeatureX\<close> (as ConfigDisplay reads them).
\<close>

definition read_config :: "jsobj list \<Rightarrow> jsval \<Rightarrow> js_error + (jsval \<times> jsval \<times> jsval)" where
  "read_config h c =
     (case get_prop h c ''apiUrl'' of Inl e \<Rightarrow> Inl e | Inr u \<Rightarrow>
      case get_prop h c ''environment'' of Inl e \<Rightarrow> Inl e | Inr n \<Rightarrow>
      case get_prop h c ''features'' of Inl e \<Rightarrow> Inl e | Inr f \<Rightarrow>
      case get_prop h f ''enableFeatureX'' of Inl e \<Rightarrow> Inl e | Inr x \<Rightarrow>
      Inr (u, n, x))"

section \<open>utils/config.ts\<close>

text \<open>
  Loading the module evaluates the object literal of \<^verbatim>\<open>DEFAULT_CONFIG\<close> (two objects) and, in
  a browser, logs one line (lines 11 to 17 and 56 to 58).
\<close>

definition load_config_module :: "world \<Rightarrow> jsval \<times> world" where
  "load_config_module w =
     (let (f, w1) = alloc [(''enableFeatureX'', JBool False)] w;
          (d, w2) = alloc [(''apiUrl'', JStr ''https://default.example.com''),
                           (''environment'', JStr ''default''),
                           (''features'', JObj f)] w1;
          w3 = (if window w2 \<noteq> None
                then console_log ''Config module loaded on client side'' [] w2 else w2)
      in (JObj d, w3))"

text \<open>
  \<^verbatim>\<open>validateConfig\<close> (lines 20 to 28): a chain of \<^verbatim>\<open>&&\<close>, evaluated left to right and stopping
  at the first false operand. \<^verbatim>\<open>config.features\<close> is read twice, as in the source.
\<close>

definition validateConfig :: "jsobj list \<Rightarrow> jsval \<Rightarrow> js_error + bool" where
  "validateConfig h config =
     (if js_typeof config \<noteq> ''object'' then Inr False else
      case get_prop h config ''apiUrl'' of Inl e \<Rightarrow> Inl e | Inr apiUrl \<Rightarrow>
      if js_typeof apiUrl \<noteq> ''string'' then Inr False else
      case get_prop h config ''environment'' of Inl e \<Rightarrow> Inl e | Inr environment \<Rightarrow>
      if js_typeof environment \<noteq> ''string'' then Inr False else
      case get_prop h config ''features'' of Inl e \<Rightarrow> Inl e | Inr features \<Rightarrow>
      if js_typeof features \<noteq> ''object'' then Inr False else
      case get_prop h config ''features'' of Inl e \<Rightarrow> Inl e | Inr features' \<Rightarrow>
      case get_prop h features' ''enableFeatureX'' of Inl e \<Rightarrow> Inl e | Inr enableFeatureX \<Rightarrow>
      Inr (js_typeof enableFeatureX = ''boolean''))"

text \<open>\<^verbatim>\<open>process.env.NAME\<close>: the variable's text, or \<^verbatim>\<open>undefined\<close> when it is not set.\<close>

definition env_var :: "world \<Rightarrow> string \<Rightarrow> jsval" where
  "env_var w name = (case process_env w name of None \<Rightarrow> JUndefined | Some s \<Rightarrow> JStr s)"

text \<open>
  \<^verbatim>\<open>getConfig\<close> (lines 31 to 53), with the module's \<^verbatim>\<open>DEFAULT_CONFIG\<close> as first argument.
  In the server branch \<^verbatim>\<open>a || b\<close> evaluates \<^verbatim>\<open>b\<close> only when \<^verbatim>\<open>a\<close> is falsy.
\<close>

definition getConfig :: "jsval \<Rightarrow> world \<Rightarrow> js_error + (jsval \<times> world)" where
  "getConfig DEFAULT_CONFIG w =
     (case window w of
        Some win \<Rightarrow>
          (let windowConfig = lookup win ''__APP_CONFIG__'' in
           if \<not> truthy windowConfig
           then Inr (DEFAULT_CONFIG,
                     console_warn ''Invalid or missing runtime config, using fallback'' [] w)
           else
             (case validateConfig (heap w) windowConfig of
                Inl e \<Rightarrow> Inl e
              | Inr ok \<Rightarrow>
                  if ok
                  then Inr (windowConfig,
                            console_log ''Valid runtime config loaded:'' [windowConfig] w)
                  else Inr (DEFAULT_CONFIG,
                            console_warn ''Invalid or missing runtime config, using fallback'' [] w)))
      | None \<Rightarrow>
          (case (if truthy (env_var w ''NEXT_PUBLIC_API_URL'')
                 then Inr (env_var w ''NEXT_PUBLIC_API_URL'')
                 else get_prop (heap w) DEFAULT_CONFIG ''apiUrl'') of
             Inl e \<Rightarrow> Inl e
           | Inr apiUrl \<Rightarrow>
          (case (if truthy (env_var w ''NODE_ENV'')
                 then Inr (env_var w ''NODE_ENV'')
                 else get_prop (heap w) DEFAULT_CONFIG ''environment'') of
             Inl e \<Rightarrow> Inl e
           | Inr environment \<Rightarrow>
               (let (f, w1) = alloc [(''enableFeatureX'',
                                      JBool (env_var w ''NEXT_PUBLIC_ENABLE_FEATURE_X'' = JStr ''true''))] w;
                    (c, w2) = alloc [(''apiUrl'', apiUrl),
                                     (''environment'', environment),
                                     (''features'', JObj f)] w1
                in Inr (JObj c, w2)))))"

section \<open>utils/useConfig.ts\<close>

text \<open>
  The source of the hook module is listed in \<^verbatim>\<open>src/docker-entrypoint.sh\<close> after the script
  (lines 24 to 79); the line numbers below are those of that listing.
\<close>

text \<open>The module's own \<^verbatim>\<open>DEFAULT_CONFIG\<close> (lines 30 to 36).\<close>

definition load_useConfig_module :: "world \<Rightarrow> jsval \<times> world" where
  "load_useConfig_module w =
     (let (f, w1) = alloc [(''enableFeatureX'', JBool False)] w;
          (d, w2) = alloc [(''apiUrl'', JStr ''https://default.example.com''),
                           (''environment'', JStr ''default''),
                           (''features'', JObj f)] w1
      in (JObj d, w2))"

text \<open>The module's own \<^verbatim>\<open>validateConfig\<close> (lines 39 to 47).\<close>

definition validateConfig_hook :: "jsobj list \<Rightarrow> jsval \<Rightarrow> js_error + bool" where
  "validateConfig_hook h config =
     (if js_typeof config \<noteq> ''object'' then Inr False else
      case get_prop h config ''apiUrl'' of Inl e \<Rightarrow> Inl e | Inr apiUrl \<Rightarrow>
      if js_typeof apiUrl \<noteq> ''string'' then Inr False else
      case get_prop h config ''environment'' of Inl e \<Rightarrow> Inl e | Inr environment \<Rightarrow>
      if js_typeof environment \<noteq> ''string'' then Inr False else
      case get_prop h config ''features'' of Inl e \<Rightarrow> Inl e | Inr features \<Rightarrow>
      if js_typeof features \<noteq> ''object'' then Inr False else
      case get_prop h config ''features'' of Inl e \<Rightarrow> Inl e | Inr features' \<Rightarrow>
      case get_prop h features' ''enableFeatureX'' of Inl e \<Rightarrow> Inl e | Inr enableFeatureX \<Rightarrow>
      Inr (js_typeof enableFeatureX = ''boolean''))"

text \<open>
  \<^verbatim>\<open>getClientConfig\<close> (lines 50 to 62): outside a browser it returns the default without a
  diagnostic; there is no branch that reads the process environment.
\<close>

definition getClientConfig :: "jsval \<Rightarrow> world \<Rightarrow> js_error + (jsval \<times> world)" where
  "getClientConfig DEFAULT_CONFIG w =
     (case window w of
        Some win \<Rightarrow>
          (let windowConfig = lookup win ''__APP_CONFIG__'' in
           if \<not> truthy windowConfig
           then Inr (DEFAULT_CONFIG,
                     console_warn ''Invalid or missing runtime config, using fallback'' [] w)
           else
             (case validateConfig_hook (heap w) windowConfig of
                Inl e \<Rightarrow> Inl e
              | Inr ok \<Rightarrow>
                  if ok
                  then Inr (windowConfig,
                            console_log ''Valid runtime config loaded:'' [windowConfig] w)
                  else Inr (DEFAULT_CONFIG,
                            console_warn ''Invalid or missing runtime config, using fallback'' [] w)))
      | None \<Rightarrow> Inr (DEFAULT_CONFIG, w))"

text \<open>
  The hook \<^verbatim>\<open>useConfig\<close> (lines 64 to 77). Its state is the \<^verbatim>\<open>useState\<close> cell (\<open>None\<close> until
  the first render initialises it with \<^verbatim>\<open>DEFAULT_CONFIG\<close>) and whether the effect, whose
  dependency list is empty, has already run.
\<close>

record hook =
  config :: "jsval option"
  effect_done :: bool

definition hook_init :: hook where
  "hook_init = \<lparr>config = None, effect_done = False\<rparr>"

text \<open>The render-phase body: what a call of \<^verbatim>\<open>useConfig()\<close> returns.\<close>

definition useConfig :: "jsval \<Rightarrow> hook \<Rightarrow> jsval \<times> hook" where
  "useConfig DEFAULT_CONFIG h =
     (case config h of
        None \<Rightarrow> (DEFAULT_CONFIG, h\<lparr>config := Some DEFAULT_CONFIG\<rparr>)
      | Some c \<Rightarrow> (c, h))"

text \<open>The body of the effect (lines 68 to 74).\<close>

definition useConfig_effect :: "jsval \<Rightarrow> hook \<Rightarrow> world \<Rightarrow> js_error + (hook \<times> world)" where
  "useConfig_effect DEFAULT_CONFIG h w =
     (case getClientConfig DEFAULT_CONFIG w of
        Inl e \<Rightarrow> Inl e
      | Inr (clientConfig, w1) \<Rightarrow>
          Inr (h\<lparr>config := Some clientConfig\<rparr>,
               console_log ''useConfig: Client-side config updated after hydration:''
                 [clientConfig] w1))"

text \<open>
  After a render is committed in the browser, an effect with dependency list \<^verbatim>\<open>[]\<close> runs if
  and only if it has not run before.
\<close>

definition commit :: "jsval \<Rightarrow> hook \<Rightarrow> world \<Rightarrow> js_error + (hook \<times> world)" where
  "commit DEFAULT_CONFIG h w =
     (if effect_done h then Inr (h, w)
      else (case useConfig_effect DEFAULT_CONFIG h w of
              Inl e \<Rightarrow> Inl e
            | Inr (h1, w1) \<Rightarrow> Inr (h1\<lparr>effect_done := True\<rparr>, w1)))"

text \<open>
  A page session: a sequence of render-and-commit cycles. Each cycle is given the properties
  of the global object as they are at that moment, so the binding may change between cycles.
  The result lists what \<^verbatim>\<open>useConfig()\<close> returned in each cycle.
\<close>

fun session :: "jsval \<Rightarrow> jsobj list \<Rightarrow> hook \<Rightarrow> world \<Rightarrow> js_error + (jsval list \<times> hook \<times> world)" where
  "session D [] h w = Inr ([], h, w)"
| "session D (win # wins) h w =
     (let (v, h1) = useConfig D h in
      case commit D h1 (w\<lparr>window := Some win\<rparr>) of
        Inl e \<Rightarrow> Inl e
      | Inr (h2, w2) \<Rightarrow>
          (case session D wins h2 w2 of
             Inl e \<Rightarrow> Inl e
           | Inr (vs, h3, w3) \<Rightarrow> Inr (v # vs, h3, w3)))"

section \<open>Executing config.js in the browser\<close>

text \<open>
  How a script engine reads the generated file, restricted to the fragment of JavaScript
  that the template produces for simple values: a single-quoted string literal without
  escape sequences and without line terminators denotes its own text, and the tokens
  \<^verbatim>\<open>true\<close> and \<^verbatim>\<open>false\<close> denote the booleans. Any other text is outside the fragment
  (\<open>None\<close>): nothing is said about it.
\<close>

fun strip_prefix :: "string \<Rightarrow> string \<Rightarrow> string option" where
  "strip_prefix [] s = Some s"
| "strip_prefix (p # ps) [] = None"
| "strip_prefix (p # ps) (c # cs) = (if p = c then strip_prefix ps cs else None)"

text \<open>The body of a single-quoted literal, after its opening quote, and the text after it.\<close>

fun read_sq_literal :: "string \<Rightarrow> (string \<times> string) option" where
  "read_sq_literal [] = None"
| "read_sq_literal (c # cs) =
     (if c = CHR 0x27 then Some ([], cs)
      else if c = CHR 0x5C \<or> c = CHR 0x0A \<or> c = CHR 0x0D then None
      else (case read_sq_literal cs of
              None \<Rightarrow> None
            | Some (s, r) \<Rightarrow> Some (c # s, r)))"

text \<open>A boolean literal that ends its line.\<close>

definition read_bool_literal :: "string \<Rightarrow> (bool \<times> string) option" where
  "read_bool_literal s =
     (let tok = takeWhile (\<lambda>c. c \<noteq> CHR 0x0A) s; r = dropWhile (\<lambda>c. c \<noteq> CHR 0x0A) s in
      if tok = ''true'' then Some (True, r)
      else if tok = ''false'' then Some (False, r)
      else None)"

definition parse_config_js :: "string \<Rightarrow> (string \<times> string \<times> bool) option" where
  "parse_config_js s =
     (case strip_prefix (''window.__APP_CONFIG__ = {'' @ nl @ ''  apiUrl: '' @ sq) s of
        None \<Rightarrow> None | Some r1 \<Rightarrow>
      case read_sq_literal r1 of None \<Rightarrow> None | Some (apiUrl, r2) \<Rightarrow>
      case strip_prefix ('','' @ nl @ ''  environment: '' @ sq) r2 of
        None \<Rightarrow> None | Some r3 \<Rightarrow>
      case read_sq_literal r3 of None \<Rightarrow> None | Some (environment, r4) \<Rightarrow>
      case strip_prefix ('','' @ nl @ ''  features: {'' @ nl @ ''    enableFeatureX: '') r4 of
        None \<Rightarrow> None | Some r5 \<Rightarrow>
      case read_bool_literal r5 of None \<Rightarrow> None | Some (enableFeatureX, r6) \<Rightarrow>
      case strip_prefix (nl @ ''  }'' @ nl @ ''};'' @ nl @ ''console.log('' @ sq
                           @ ''Runtime config loaded:'' @ sq @ '', window.__APP_CONFIG__);'' @ nl) r6 of
        None \<Rightarrow> None
      | Some r7 \<Rightarrow> if r7 = [] then Some (apiUrl, environment, enableFeatureX) else None)"

text \<open>
  The two statements of the file: the assignment of a new object to
  \<^verbatim>\<open>window.__APP_CONFIG__\<close> and the log line. Without a global \<^verbatim>\<open>window\<close> the assignment
  throws a ReferenceError.
\<close>

definition assign_app_config :: "string \<times> string \<times> bool \<Rightarrow> world \<Rightarrow> js_error + world" where
  "assign_app_config lit w =
     (case window w of
        None \<Rightarrow> Inl ReferenceError
      | Some win \<Rightarrow>
          (let (apiUrl, environment, enableFeatureX) = lit;
               (f, w1) = alloc [(''enableFeatureX'', JBool enableFeatureX)] w;
               (c, w2) = alloc [(''apiUrl'', JStr apiUrl),
                                (''environment'', JStr environment),
                                (''features'', JObj f)] w1;
               w3 = w2\<lparr>window := Some ((''__APP_CONFIG__'', JObj c) # win)\<rparr>
           in Inr (console_log ''Runtime config loaded:'' [JObj c] w3)))"

definition exec_config_js :: "string \<Rightarrow> world \<Rightarrow> (js_error + world) option" where
  "exec_config_js file w = map_option (\<lambda>lit. assign_app_config lit w) (parse_config_js file)"

text \<open>
  Text that a single-quoted literal of the fragment can carry: no quote, no backslash, no
  line break.
\<close>

definition wellformed_text :: "string \<Rightarrow> bool" where
  "wellformed_text v = list_all (\<lambda>c. c \<noteq> CHR 0x27 \<and> c \<noteq> CHR 0x5C \<and> c \<noteq> CHR 0x0A \<and> c \<noteq> CHR 0x0D) v"

text \<open>
  A well-formed set of the three variables: the two texts, when set, are well-formed, and the
  flag variable is unset or exactly \<^verbatim>\<open>true\<close>.
\<close>

definition wellformed_env :: "shell_env \<Rightarrow> bool" where
  "wellformed_env env =
     ((case env ''API_URL'' of None \<Rightarrow> True | Some v \<Rightarrow> wellformed_text v) \<and>
      (case env ''ENVIRONMENT'' of None \<Rightarrow> True | Some v \<Rightarrow> wellformed_text v) \<and>
      (case env ''ENABLE_FEATURE_X'' of None \<Rightarrow> True | Some v \<Rightarrow> v = ''true''))"

section \<open>Notions used in the statements\<close>

text \<open>The values of the literal \<^verbatim>\<open>DEFAULT_CONFIG\<close> (the same in both modules' source text).\<close>

definition hardcoded_default :: "jsval \<times> jsval \<times> jsval" where
  "hardcoded_default = (JStr ''https://default.example.com'', JStr ''default'', JBool False)"

text \<open>The object \<open>D\<close> still reads as the literal it was created from.\<close>

definition is_hardcoded_default :: "jsobj list \<Rightarrow> jsval \<Rightarrow> bool" where
  "is_hardcoded_default h D = (read_config h D = Inr hardcoded_default)"

text \<open>The console entries that one call of \<^verbatim>\<open>getConfig\<close> adds.\<close>

definition diagnostics :: "jsval \<Rightarrow> world \<Rightarrow> (level \<times> string \<times> jsval list) list" where
  "diagnostics D w =
     (case getConfig D w of
        Inl e \<Rightarrow> []
      | Inr (v, w') \<Rightarrow> drop (length (console w)) (console w'))"

text \<open>Worlds for the concrete scenarios: a browser page and a server process.\<close>

definition browser_world :: "jsobj list \<Rightarrow> jsobj \<Rightarrow> world" where
  "browser_world h win = \<lparr>heap = h, window = Some win, process_env = Map.empty, console = []\<rparr>"

definition server_world :: "(string \<rightharpoonup> string) \<Rightarrow> world" where
  "server_world env = \<lparr>heap = [], window = None, process_env = env, console = []\<rparr>"

section \<open>Auxiliary facts\<close>

lemma strip_prefix_cancel: "strip_prefix (a @ p) (a @ s) = strip_prefix p s"
  by (induction a) auto

lemma strip_prefix_append: "strip_prefix p (p @ s) = Some s"
  by (induction p) auto

lemma strip_prefix_self: "strip_prefix p p = Some []"
  by (induction p) auto

lemma read_sq_literal_wellformed:
  "wellformed_text v \<Longrightarrow> read_sq_literal (v @ sq @ r) = Some (v, r)"
  by (induction v) (auto simp: wellformed_text_def sq_def)

lemma read_bool_literal_line:
  "read_bool_literal ((if b then ''true'' else ''false'') @ nl @ r) = Some (b, nl @ r)"
  by (cases b) (simp_all add: read_bool_literal_def nl_def)

lemma wellformed_expand_default:
  assumes "wellformed_text word"
    and "case env name of None \<Rightarrow> True | Some v \<Rightarrow> wellformed_text v"
  shows "wellformed_text (expand_default env name word)"
  using assms by (auto simp: expand_default_def split: option.splits)

lemma config_js_template:
  "config_js env =
     ''window.__APP_CONFIG__ = {'' @ nl @ ''  apiUrl: '' @ sq
     @ expand_default env ''API_URL'' ''https://default.example.com'' @ sq @ '','' @ nl
     @ ''  environment: '' @ sq @ expand_default env ''ENVIRONMENT'' ''production'' @ sq
     @ '','' @ nl @ ''  features: {'' @ nl @ ''    enableFeatureX: ''
     @ expand_default env ''ENABLE_FEATURE_X'' ''false'' @ nl @ ''  }'' @ nl @ ''};'' @ nl
     @ ''console.log('' @ sq @ ''Runtime config loaded:'' @ sq
     @ '', window.__APP_CONFIG__);'' @ nl"
  by (simp add: config_js_def config_js_lines_def)

lemma parse_template:
  assumes "wellformed_text u" and "wellformed_text n"
  shows "parse_config_js
     (''window.__APP_CONFIG__ = {'' @ nl @ ''  apiUrl: '' @ sq @ u @ sq @ '','' @ nl
      @ ''  environment: '' @ sq @ n @ sq @ '','' @ nl @ ''  features: {'' @ nl
      @ ''    enableFeatureX: '' @ (if b then ''true'' else ''false'') @ nl @ ''  }'' @ nl
      @ ''};'' @ nl @ ''console.log('' @ sq @ ''Runtime config loaded:'' @ sq
      @ '', window.__APP_CONFIG__);'' @ nl) = Some (u, n, b)"
  unfolding parse_config_js_def
  by (simp only: strip_prefix_cancel strip_prefix_append strip_prefix_self option.case
      prod.case read_sq_literal_wellformed[OF assms(1)] read_sq_literal_wellformed[OF assms(2)]
      read_bool_literal_line simp_thms if_True)

lemma flag_text_wellformed:
  assumes "case env ''ENABLE_FEATURE_X'' of None \<Rightarrow> True | Some v \<Rightarrow> v = ''true''"
  shows "expand_default env ''ENABLE_FEATURE_X'' ''false'' =
         (if env ''ENABLE_FEATURE_X'' = Some ''true'' then ''true'' else ''false'')"
  using assms by (auto simp: expand_default_def split: option.splits)

lemma parse_config_js_generated:
  assumes "wellformed_env env"
  shows "parse_config_js (config_js env) =
     Some (expand_default env ''API_URL'' ''https://default.example.com'',
           expand_default env ''ENVIRONMENT'' ''production'',
           env ''ENABLE_FEATURE_X'' = Some ''true'')"
proof -
  have u: "wellformed_text (expand_default env ''API_URL'' ''https://default.example.com'')"
    using assms by (intro wellformed_expand_default) (simp_all add: wellformed_env_def wellformed_text_def)
  have n: "wellformed_text (expand_default env ''ENVIRONMENT'' ''production'')"
    using assms by (intro wellformed_expand_default) (simp_all add: wellformed_env_def wellformed_text_def)
  have f: "expand_default env ''ENABLE_FEATURE_X'' ''false'' =
           (if env ''ENABLE_FEATURE_X'' = Some ''true'' then ''true'' else ''false'')"
    using assms by (intro flag_text_wellformed) (simp add: wellformed_env_def)
  show ?thesis
    unfolding config_js_template f by (rule parse_template[OF u n])
qed

lemma validateConfig_hook_eq: "validateConfig_hook h c = validateConfig h c"
  by (simp add: validateConfig_hook_def validateConfig_def)

lemma getClientConfig_browser: "window w \<noteq> None \<Longrightarrow> getClientConfig D w = getConfig D w"
  by (cases "window w")
     (simp_all add: getClientConfig_def getConfig_def validateConfig_hook_eq Let_def)

lemma load_config_module_default:
  "is_hardcoded_default (heap (snd (load_config_module w))) (fst (load_config_module w))"
  by (simp add: load_config_module_def alloc_def is_hardcoded_default_def read_config_def
      hardcoded_default_def lookup_def console_log_def Let_def nth_append)

lemma load_useConfig_module_default:
  "is_hardcoded_default (heap (snd (load_useConfig_module w))) (fst (load_useConfig_module w))"
  by (simp add: load_useConfig_module_def alloc_def is_hardcoded_default_def read_config_def
      hardcoded_default_def lookup_def Let_def nth_append)

lemma is_hardcoded_defaultD:
  assumes "is_hardcoded_default h D"
  shows "get_prop h D ''apiUrl'' = Inr (JStr ''https://default.example.com'')"
    and "get_prop h D ''environment'' = Inr (JStr ''default'')"
  using assms
  by (auto simp: is_hardcoded_default_def read_config_def hardcoded_default_def
      split: sum.splits)

text \<open>Once the effect has run, every later cycle returns the stored value and changes nothing.\<close>

lemma session_hydrated:
  "session D wins \<lparr>config = Some v, effect_done = True\<rparr> w =
     Inr (replicate (length wins) v, \<lparr>config = Some v, effect_done = True\<rparr>,
          if wins = [] then w else w\<lparr>window := Some (last wins)\<rparr>)"
  by (induction wins arbitrary: w) (simp_all add: useConfig_def commit_def)

text \<open>The browser branch of \<^verbatim>\<open>getConfig\<close> never changes the heap or the global object.\<close>

lemma getConfig_browser_preserves:
  assumes "window w = Some win" and "getConfig D w = Inr (v, w')"
  shows "heap w' = heap w \<and> window w' = window w \<and> process_env w' = process_env w"
  using assms
  by (auto simp: getConfig_def Let_def console_log_def console_warn_def
      split: if_splits sum.splits)

text \<open>
  The browser branch of \<^verbatim>\<open>getConfig\<close> throws in exactly one situation: the binding is an
  object with string \<^verbatim>\<open>apiUrl\<close> and \<^verbatim>\<open>environment\<close> whose \<^verbatim>\<open>features\<close> is \<^verbatim>\<open>null\<close>.
\<close>

lemma get_prop_features_throws:
  "js_typeof f = ''object'' \<Longrightarrow> (\<exists>e. get_prop h f k = Inl e) \<longleftrightarrow> f = JNull"
  by (cases f) simp_all

lemma validateConfig_obj_throws_iff:
  "(\<exists>e. validateConfig h (JObj a) = Inl e) \<longleftrightarrow>
     (\<exists>u n. get_prop h (JObj a) ''apiUrl'' = Inr u \<and> js_typeof u = ''string'' \<and>
        get_prop h (JObj a) ''environment'' = Inr n \<and> js_typeof n = ''string'' \<and>
        get_prop h (JObj a) ''features'' = Inr JNull)"
proof -
  obtain u n f where g: "get_prop h (JObj a) ''apiUrl'' = Inr u"
      "get_prop h (JObj a) ''environment'' = Inr n" "get_prop h (JObj a) ''features'' = Inr f"
    by simp
  show ?thesis
  proof (cases "js_typeof u = ''string'' \<and> js_typeof n = ''string'' \<and> js_typeof f = ''object''")
    case True
    then have "validateConfig h (JObj a) =
        (case get_prop h f ''enableFeatureX'' of Inl e \<Rightarrow> Inl e
         | Inr x \<Rightarrow> Inr (js_typeof x = ''boolean''))"
      unfolding validateConfig_def g by simp
    then have "(\<exists>e. validateConfig h (JObj a) = Inl e) \<longleftrightarrow> f = JNull"
      using get_prop_features_throws [of f h "''enableFeatureX''"] True
      by (cases "get_prop h f ''enableFeatureX''") auto
    then show ?thesis
      unfolding g using True by auto
  next
    case False
    then have "validateConfig h (JObj a) = Inr False"
      unfolding validateConfig_def g by auto
    then show ?thesis
      unfolding g using False by auto
  qed
qed

lemma getConfig_browser_throws_iff:
  assumes "window w = Some win"
  shows "(\<exists>e. getConfig D w = Inl e) \<longleftrightarrow>
     (\<exists>a u n. lookup win ''__APP_CONFIG__'' = JObj a \<and>
        get_prop (heap w) (JObj a) ''apiUrl'' = Inr u \<and> js_typeof u = ''string'' \<and>
        get_prop (heap w) (JObj a) ''environment'' = Inr n \<and> js_typeof n = ''string'' \<and>
        get_prop (heap w) (JObj a) ''features'' = Inr JNull)"
proof (cases "lookup win ''__APP_CONFIG__''")
  case (JObj a)
  have "(\<exists>e. getConfig D w = Inl e) \<longleftrightarrow> (\<exists>e. validateConfig (heap w) (JObj a) = Inl e)"
    using assms JObj by (cases "validateConfig (heap w) (JObj a)") (simp_all add: getConfig_def Let_def)
  then show ?thesis
    unfolding validateConfig_obj_throws_iff using JObj by simp
qed (use assms in \<open>simp_all add: getConfig_def validateConfig_def Let_def\<close>)

text \<open>
  The object that a generated file binds, for a well-formed set of variables, passes the
  validation of \<^verbatim>\<open>getConfig\<close> and is returned by it.
\<close>

lemma generated_config_is_accepted:
  assumes "wellformed_env env" and "window w = Some win"
    and "exec_config_js (config_js env) w = Some (Inr w')"
  shows "\<exists>win' c. window w' = Some win' \<and> lookup win' ''__APP_CONFIG__'' = JObj c \<and>
           getConfig D w' =
             Inr (JObj c, console_log ''Valid runtime config loaded:'' [JObj c] w')"
  using assms(2,3)
  by (auto simp: exec_config_js_def parse_config_js_generated[OF assms(1)]
      assign_app_config_def alloc_def console_log_def lookup_def nth_append
      getConfig_def validateConfig_def Let_def)

section \<open>The generated file\<close>

text \<open>
  C1 (as amended). The flag text emitted into the generated file is \<^verbatim>\<open>false\<close> when
  \<^verbatim>\<open>ENABLE_FEATURE_X\<close> is unset or empty, \<^verbatim>\<open>true\<close> when it is exactly the text \<^verbatim>\<open>true\<close>, and
  for every other non-empty text it is that text itself, uncoerced; in each case it is what
  follows \<^verbatim>\<open>enableFeatureX: \<close> on the fifth line of the file.
\<close>

theorem C1_emitted_flag_verbatim:
  "config_js_lines env ! 4 = ''    enableFeatureX: '' @ emitted_flag env \<and>
   (env ''ENABLE_FEATURE_X'' = None \<longrightarrow> emitted_flag env = ''false'') \<and>
   (env ''ENABLE_FEATURE_X'' = Some [] \<longrightarrow> emitted_flag env = ''false'') \<and>
   (env ''ENABLE_FEATURE_X'' = Some ''true'' \<longrightarrow> emitted_flag env = ''true'') \<and>
   (\<forall>v. env ''ENABLE_FEATURE_X'' = Some v \<longrightarrow> v \<noteq> [] \<longrightarrow> emitted_flag env = v)"
  by (simp add: emitted_flag_def config_js_lines_def expand_default_def)

theorem C1_emitted_flag_verbatim_witness:
  "emitted_flag (Map.empty(''ENABLE_FEATURE_X'' \<mapsto> ''true'')) = ''true'' \<and>
   emitted_flag (Map.empty(''ENABLE_FEATURE_X'' \<mapsto> ''yes'')) = ''yes'' \<and>
   emitted_flag (Map.empty(''ENABLE_FEATURE_X'' \<mapsto> [])) = ''false'' \<and>
   emitted_flag Map.empty = ''false''"
  using C1_emitted_flag_verbatim [of "Map.empty(''ENABLE_FEATURE_X'' \<mapsto> ''true'')"]
    C1_emitted_flag_verbatim [of "Map.empty(''ENABLE_FEATURE_X'' \<mapsto> ''yes'')"]
    C1_emitted_flag_verbatim [of "Map.empty(''ENABLE_FEATURE_X'' \<mapsto> [])"]
    C1_emitted_flag_verbatim [of Map.empty]
  by simp

text \<open>
  C1 as stated fails: with \<^verbatim>\<open>ENABLE_FEATURE_X=1\<close> the emitted flag is \<^verbatim>\<open>1\<close>, not \<^verbatim>\<open>false\<close>.
\<close>

theorem C1_other_text_counterexample:
  "emitted_flag (Map.empty(''ENABLE_FEATURE_X'' \<mapsto> ''1'')) = ''1'' \<and>
   emitted_flag (Map.empty(''ENABLE_FEATURE_X'' \<mapsto> ''1'')) \<noteq> ''false''"
  by (simp add: emitted_flag_def config_js_lines_def expand_default_def)



section \<open>The accessor of utils/config.ts\<close>

text \<open>
  C2 fails on the code: a binding whose \<^verbatim>\<open>apiUrl\<close> and \<^verbatim>\<open>environment\<close> are strings and whose
  \<^verbatim>\<open>features\<close> is \<^verbatim>\<open>null\<close> passes \<^verbatim>\<open>typeof config.features === 'object'\<close>, and reading
  \<^verbatim>\<open>config.features.enableFeatureX\<close> then throws a TypeError, out of \<^verbatim>\<open>getConfig\<close> and out
  of the hook module's \<^verbatim>\<open>getClientConfig\<close> alike.
\<close>

theorem C2_null_features_throws:
  "getConfig
     (fst (load_config_module (browser_world
        [[(''apiUrl'', JStr ''https://x''), (''environment'', JStr ''y''), (''features'', JNull)]]
        [(''__APP_CONFIG__'', JObj 0)])))
     (snd (load_config_module (browser_world
        [[(''apiUrl'', JStr ''https://x''), (''environment'', JStr ''y''), (''features'', JNull)]]
        [(''__APP_CONFIG__'', JObj 0)]))) = Inl TypeError \<and>
   getClientConfig
     (fst (load_useConfig_module (browser_world
        [[(''apiUrl'', JStr ''https://x''), (''environment'', JStr ''y''), (''features'', JNull)]]
        [(''__APP_CONFIG__'', JObj 0)])))
     (snd (load_useConfig_module (browser_world
        [[(''apiUrl'', JStr ''https://x''), (''environment'', JStr ''y''), (''features'', JNull)]]
        [(''__APP_CONFIG__'', JObj 0)]))) = Inl TypeError"
  by (simp add: getConfig_def getClientConfig_def load_config_module_def
      load_useConfig_module_def browser_world_def alloc_def console_log_def lookup_def
      validateConfig_def validateConfig_hook_def nth_append)

text \<open>
  What does hold for malformed bindings. When the binding is an object that lacks
  \<^verbatim>\<open>features\<close>, or whose \<^verbatim>\<open>apiUrl\<close> or \<^verbatim>\<open>environment\<close> is not of type string, or whose
  \<^verbatim>\<open>features\<close> is not of type object, or whose \<^verbatim>\<open>features.enableFeatureX\<close> can be read and is
  not of type boolean, \<^verbatim>\<open>getConfig\<close> returns the object \<^verbatim>\<open>DEFAULT_CONFIG\<close> itself, which still
  reads as the hardcoded literal: nothing is merged. A binding whose \<^verbatim>\<open>features\<close> is \<^verbatim>\<open>null\<close>
  is not among these cases.
\<close>

lemma getConfig_rejected_object_gives_default:
  assumes "window w = Some win" and "lookup win ''__APP_CONFIG__'' = JObj a"
    and "is_hardcoded_default (heap w) D"
    and "get_prop (heap w) (JObj a) ''apiUrl'' = Inr u"
    and "get_prop (heap w) (JObj a) ''environment'' = Inr n"
    and "get_prop (heap w) (JObj a) ''features'' = Inr f"
    and "f = JUndefined \<or> js_typeof u \<noteq> ''string'' \<or> js_typeof n \<noteq> ''string'' \<or>
         js_typeof f \<noteq> ''object'' \<or>
         (\<exists>x. get_prop (heap w) f ''enableFeatureX'' = Inr x \<and> js_typeof x \<noteq> ''boolean'')"
  shows "getConfig D w =
           Inr (D, console_warn ''Invalid or missing runtime config, using fallback'' [] w) \<and>
         read_config (heap (console_warn ''Invalid or missing runtime config, using fallback'' [] w)) D
           = Inr hardcoded_default"
  using assms
  by (auto simp: getConfig_def validateConfig_def Let_def console_warn_def
      is_hardcoded_default_def)

lemma getConfig_rejected_object_example:
  "getConfig (JObj 2)
     (snd (load_config_module (browser_world
        [[(''apiUrl'', JStr ''https://x''), (''environment'', JStr ''y'')]]
        [(''__APP_CONFIG__'', JObj 0)]))) =
   Inr (JObj 2, console_warn ''Invalid or missing runtime config, using fallback'' []
     (snd (load_config_module (browser_world
        [[(''apiUrl'', JStr ''https://x''), (''environment'', JStr ''y'')]]
        [(''__APP_CONFIG__'', JObj 0)])))) \<and>
   read_config (heap (console_warn ''Invalid or missing runtime config, using fallback'' []
     (snd (load_config_module (browser_world
        [[(''apiUrl'', JStr ''https://x''), (''environment'', JStr ''y'')]]
        [(''__APP_CONFIG__'', JObj 0)]))))) (JObj 2) = Inr hardcoded_default"
proof -
  let ?b = "browser_world
        [[(''apiUrl'', JStr ''https://x''), (''environment'', JStr ''y'')]]
        [(''__APP_CONFIG__'', JObj 0)]"
  let ?w = "snd (load_config_module ?b)"
  have D: "fst (load_config_module ?b) = JObj 2"
    by (simp add: load_config_module_def browser_world_def alloc_def console_log_def)
  have h: "heap ?w = [[(''apiUrl'', JStr ''https://x''), (''environment'', JStr ''y'')],
                      [(''enableFeatureX'', JBool False)],
                      [(''apiUrl'', JStr ''https://default.example.com''),
                       (''environment'', JStr ''default''), (''features'', JObj 1)]]"
    by (simp add: load_config_module_def browser_world_def alloc_def console_log_def)
  have 1: "window ?w = Some [(''__APP_CONFIG__'', JObj 0)]"
    by (simp add: load_config_module_def browser_world_def alloc_def console_log_def)
  have 2: "lookup [(''__APP_CONFIG__'', JObj 0)] ''__APP_CONFIG__'' = JObj 0"
    by (simp add: lookup_def)
  have 3: "is_hardcoded_default (heap ?w) (JObj 2)"
    using load_config_module_default [of ?b] by (simp only: D)
  have 4: "get_prop (heap ?w) (JObj 0) ''apiUrl'' = Inr (JStr ''https://x'')"
    by (simp add: h lookup_def)
  have 5: "get_prop (heap ?w) (JObj 0) ''environment'' = Inr (JStr ''y'')"
    by (simp add: h lookup_def)
  have 6: "get_prop (heap ?w) (JObj 0) ''features'' = Inr JUndefined"
    by (simp add: h lookup_def)
  show ?thesis
    by (rule getConfig_rejected_object_gives_default [OF 1 2 3 4 5 6]) simp
qed

text \<open>A binding that is present but not of type object also gives the default.\<close>

lemma getConfig_nonobject_binding_gives_default:
  assumes "window w = Some win" and "js_typeof (lookup win ''__APP_CONFIG__'') \<noteq> ''object''"
  shows "getConfig D w =
           Inr (D, console_warn ''Invalid or missing runtime config, using fallback'' [] w)"
  using assms by (simp add: getConfig_def validateConfig_def Let_def)

text \<open>
  C3 fails on the code: a binding that is present, has string \<^verbatim>\<open>apiUrl\<close> and \<^verbatim>\<open>environment\<close>,
  and has \<^verbatim>\<open>null\<close> where the feature-flag mapping should be, does not make \<^verbatim>\<open>getConfig\<close>
  return the default: the call throws a TypeError, because \<^verbatim>\<open>typeof null\<close> is \<^verbatim>\<open>'object'\<close>
  and \<^verbatim>\<open>config.features.enableFeatureX\<close> is then read from \<^verbatim>\<open>null\<close>.
\<close>

theorem C3_null_mapping_no_default:
  "getConfig
     (fst (load_config_module (browser_world
        [[(''apiUrl'', JStr ''https://api.example.com''), (''environment'', JStr ''staging''),
          (''features'', JNull)]]
        [(''__APP_CONFIG__'', JObj 0)])))
     (snd (load_config_module (browser_world
        [[(''apiUrl'', JStr ''https://api.example.com''), (''environment'', JStr ''staging''),
          (''features'', JNull)]]
        [(''__APP_CONFIG__'', JObj 0)]))) = Inl TypeError \<and>
   getConfig
     (fst (load_config_module (browser_world
        [[(''apiUrl'', JStr ''https://api.example.com''), (''environment'', JStr ''staging''),
          (''features'', JNull)]]
        [(''__APP_CONFIG__'', JObj 0)])))
     (snd (load_config_module (browser_world
        [[(''apiUrl'', JStr ''https://api.example.com''), (''environment'', JStr ''staging''),
          (''features'', JNull)]]
        [(''__APP_CONFIG__'', JObj 0)]))) \<noteq>
   Inr (fst (load_config_module (browser_world
          [[(''apiUrl'', JStr ''https://api.example.com''), (''environment'', JStr ''staging''),
            (''features'', JNull)]]
          [(''__APP_CONFIG__'', JObj 0)])),
        console_warn ''Invalid or missing runtime config, using fallback'' []
          (snd (load_config_module (browser_world
            [[(''apiUrl'', JStr ''https://api.example.com''), (''environment'', JStr ''staging''),
              (''features'', JNull)]]
            [(''__APP_CONFIG__'', JObj 0)]))))"
  by (simp add: getConfig_def load_config_module_def browser_world_def alloc_def
      console_log_def lookup_def validateConfig_def nth_append)

text \<open>
  C4. When the binding is an object whose \<^verbatim>\<open>apiUrl\<close> and \<^verbatim>\<open>environment\<close> are strings and whose
  \<^verbatim>\<open>features\<close> is an object with a boolean \<^verbatim>\<open>enableFeatureX\<close>, \<^verbatim>\<open>getConfig\<close> returns the
  reference it read (the same object, not a copy) and changes neither the heap, so every
  property of the object, recognised or not, is as it was, nor the global object.
\<close>

theorem C4_valid_binding_verbatim:
  assumes "window w = Some win" and "lookup win ''__APP_CONFIG__'' = JObj a"
    and "get_prop (heap w) (JObj a) ''apiUrl'' = Inr u" and "js_typeof u = ''string''"
    and "get_prop (heap w) (JObj a) ''environment'' = Inr n" and "js_typeof n = ''string''"
    and "get_prop (heap w) (JObj a) ''features'' = Inr (JObj f)"
    and "get_prop (heap w) (JObj f) ''enableFeatureX'' = Inr x" and "js_typeof x = ''boolean''"
  shows "\<exists>w'. getConfig D w = Inr (JObj a, w') \<and> heap w' = heap w \<and> window w' = window w \<and>
              console w' = console w @ [(Log, ''Valid runtime config loaded:'', [JObj a])]"
  using assms
  by (auto simp: getConfig_def validateConfig_def Let_def console_log_def)

theorem C4_valid_binding_verbatim_witness:
  "\<exists>w'. getConfig (JObj 7)
       (browser_world
          [[(''apiUrl'', JStr ''https://x''), (''environment'', JStr ''y''),
            (''features'', JObj 1), (''extra'', JNum 42)],
           [(''enableFeatureX'', JBool True), (''other'', JStr ''z'')]]
          [(''__APP_CONFIG__'', JObj 0)]) = Inr (JObj 0, w') \<and>
     heap w' = [[(''apiUrl'', JStr ''https://x''), (''environment'', JStr ''y''),
                 (''features'', JObj 1), (''extra'', JNum 42)],
                [(''enableFeatureX'', JBool True), (''other'', JStr ''z'')]] \<and>
     window w' = Some [(''__APP_CONFIG__'', JObj 0)]"
proof -
  let ?h = "[[(''apiUrl'', JStr ''https://x''), (''environment'', JStr ''y''),
              (''features'', JObj 1), (''extra'', JNum 42)],
             [(''enableFeatureX'', JBool True), (''other'', JStr ''z'')]]"
  let ?w = "browser_world ?h [(''__APP_CONFIG__'', JObj 0)]"
  have 1: "window ?w = Some [(''__APP_CONFIG__'', JObj 0)]"
    by (simp add: browser_world_def)
  have 2: "lookup [(''__APP_CONFIG__'', JObj 0)] ''__APP_CONFIG__'' = JObj 0"
    by (simp add: lookup_def)
  have 3: "get_prop (heap ?w) (JObj 0) ''apiUrl'' = Inr (JStr ''https://x'')"
    by (simp add: browser_world_def lookup_def)
  have 4: "get_prop (heap ?w) (JObj 0) ''environment'' = Inr (JStr ''y'')"
    by (simp add: browser_world_def lookup_def)
  have 5: "get_prop (heap ?w) (JObj 0) ''features'' = Inr (JObj 1)"
    by (simp add: browser_world_def lookup_def)
  have 6: "get_prop (heap ?w) (JObj 1) ''enableFeatureX'' = Inr (JBool True)"
    by (simp add: browser_world_def lookup_def)
  obtain w' where "getConfig (JObj 7) ?w = Inr (JObj 0, w')" "heap w' = heap ?w"
      "window w' = window ?w"
    using C4_valid_binding_verbatim [OF 1 2 3 _ 4 _ 5 6, where D = "JObj 7"] by auto
  then show ?thesis
    by (intro exI [of _ w']) (simp add: browser_world_def)
qed

text \<open>
  C5. When the global object has no \<^verbatim>\<open>__APP_CONFIG__\<close> property, \<^verbatim>\<open>getConfig\<close> returns the
  object \<^verbatim>\<open>DEFAULT_CONFIG\<close>, which reads as the hardcoded literal.
\<close>

theorem C5_absent_binding_gives_default:
  assumes "window w = Some win" and "map_of win ''__APP_CONFIG__'' = None"
    and "is_hardcoded_default (heap w) D"
  shows "getConfig D w =
           Inr (D, console_warn ''Invalid or missing runtime config, using fallback'' [] w) \<and>
         read_config (heap (console_warn ''Invalid or missing runtime config, using fallback'' [] w)) D
           = Inr hardcoded_default"
  using assms
  by (simp add: getConfig_def lookup_def console_warn_def is_hardcoded_default_def)

theorem C5_absent_binding_gives_default_witness:
  "getConfig (fst (load_config_module (browser_world [] [])))
     (snd (load_config_module (browser_world [] []))) =
   Inr (JObj 1,
        \<lparr>heap = [[(''enableFeatureX'', JBool False)],
                 [(''apiUrl'', JStr ''https://default.example.com''),
                  (''environment'', JStr ''default''), (''features'', JObj 0)]],
         window = Some [], process_env = Map.empty,
         console = [(Log, ''Config module loaded on client side'', []),
                    (Warn, ''Invalid or missing runtime config, using fallback'', [])]\<rparr>)"
proof -
  let ?w = "snd (load_config_module (browser_world [] []))"
  have 1: "window ?w = Some []"
    by (simp add: load_config_module_def browser_world_def alloc_def console_log_def)
  have 2: "map_of ([] :: jsobj) ''__APP_CONFIG__'' = None"
    by simp
  show ?thesis
    using C5_absent_binding_gives_default [OF 1 2 load_config_module_default]
    by (simp add: load_config_module_def browser_world_def alloc_def console_log_def
        console_warn_def)
qed

text \<open>
  C8. Without a global \<^verbatim>\<open>window\<close> there is no binding to read: \<^verbatim>\<open>getConfig\<close> builds a new
  object from the process environment as it is at the call. \<^verbatim>\<open>apiUrl\<close> is
  \<^verbatim>\<open>NEXT_PUBLIC_API_URL\<close> and \<^verbatim>\<open>environment\<close> is \<^verbatim>\<open>NODE_ENV\<close>, each replaced by the default's
  field when the variable is unset (or empty); \<^verbatim>\<open>enableFeatureX\<close> is true exactly when
  \<^verbatim>\<open>NEXT_PUBLIC_ENABLE_FEATURE_X\<close> is the text \<^verbatim>\<open>true\<close>, hence false, the default's value,
  when that variable is unset. Nothing that existed before is changed.
\<close>

theorem C8_server_branch_from_process_env:
  assumes "window w = None" and "is_hardcoded_default (heap w) D"
  shows "getConfig D w =
     Inr (JObj (Suc (length (heap w))),
          w\<lparr>heap := heap w @
             [[(''enableFeatureX'',
                JBool (process_env w ''NEXT_PUBLIC_ENABLE_FEATURE_X'' = Some ''true''))],
              [(''apiUrl'',
                JStr (case process_env w ''NEXT_PUBLIC_API_URL'' of
                        None \<Rightarrow> ''https://default.example.com''
                      | Some s \<Rightarrow> if s = [] then ''https://default.example.com'' else s)),
               (''environment'',
                JStr (case process_env w ''NODE_ENV'' of
                        None \<Rightarrow> ''default''
                      | Some s \<Rightarrow> if s = [] then ''default'' else s)),
               (''features'', JObj (length (heap w)))]]\<rparr>)"
  using assms(1) is_hardcoded_defaultD [OF assms(2)]
  by (auto simp: getConfig_def env_var_def alloc_def split: option.splits)

theorem C8_server_branch_from_process_env_witness:
  "(\<exists>v w'. getConfig (fst (load_config_module (server_world Map.empty)))
              (snd (load_config_module (server_world Map.empty))) = Inr (v, w') \<and>
           read_config (heap w') v = Inr hardcoded_default) \<and>
   (\<exists>v w'. getConfig
              (fst (load_config_module (server_world
                 (Map.empty(''NEXT_PUBLIC_API_URL'' \<mapsto> ''https://build.example.com'',
                            ''NEXT_PUBLIC_ENABLE_FEATURE_X'' \<mapsto> ''true'')))))
              (snd (load_config_module (server_world
                 (Map.empty(''NEXT_PUBLIC_API_URL'' \<mapsto> ''https://build.example.com'',
                            ''NEXT_PUBLIC_ENABLE_FEATURE_X'' \<mapsto> ''true''))))) = Inr (v, w') \<and>
           read_config (heap w') v =
             Inr (JStr ''https://build.example.com'', JStr ''default'', JBool True))"
proof -
  have 1: "window (snd (load_config_module (server_world e))) = None" for e
    by (simp add: load_config_module_def server_world_def alloc_def)
  show ?thesis
    using C8_server_branch_from_process_env [OF 1 load_config_module_default, of Map.empty]
      C8_server_branch_from_process_env [OF 1 load_config_module_default,
        of "Map.empty(''NEXT_PUBLIC_API_URL'' \<mapsto> ''https://build.example.com'',
                      ''NEXT_PUBLIC_ENABLE_FEATURE_X'' \<mapsto> ''true'')"]
    by (simp add: load_config_module_def server_world_def alloc_def read_config_def
        lookup_def hardcoded_default_def nth_append)
qed

text \<open>
  C9 (as amended). Whenever the browser branch of \<^verbatim>\<open>getConfig\<close> falls back to the default,
  because the binding is falsy or because validation returns false, the call emits exactly one
  warning, with the fixed text \<^verbatim>\<open>Invalid or missing runtime config, using fallback\<close> and no
  further argument: the same in both cases.
\<close>

theorem C9_one_fixed_fallback_warning:
  assumes "window w = Some win"
    and "\<not> truthy (lookup win ''__APP_CONFIG__'') \<or>
         validateConfig (heap w) (lookup win ''__APP_CONFIG__'') = Inr False"
  shows "diagnostics D w = [(Warn, ''Invalid or missing runtime config, using fallback'', [])]"
  using assms by (auto simp: diagnostics_def getConfig_def Let_def console_warn_def)

theorem C9_one_fixed_fallback_warning_witness:
  "diagnostics (JObj 1) (browser_world [] [(''__APP_CONFIG__'', JNum 5)]) =
     [(Warn, ''Invalid or missing runtime config, using fallback'', [])]"
proof -
  have 1: "window (browser_world [] [(''__APP_CONFIG__'', JNum 5)]) =
           Some [(''__APP_CONFIG__'', JNum 5)]"
    by (simp add: browser_world_def)
  have 2: "\<not> truthy (lookup [(''__APP_CONFIG__'', JNum 5)] ''__APP_CONFIG__'') \<or>
           validateConfig (heap (browser_world [] [(''__APP_CONFIG__'', JNum 5)]))
             (lookup [(''__APP_CONFIG__'', JNum 5)] ''__APP_CONFIG__'') = Inr False"
    by (simp add: lookup_def validateConfig_def)
  show ?thesis
    by (rule C9_one_fixed_fallback_warning [OF 1 2])
qed

text \<open>
  C9 as stated fails: with the binding absent and with the binding present but lacking
  \<^verbatim>\<open>features\<close>, the diagnostics of the two calls are equal, so they do not tell the cases apart.
\<close>

theorem C9_same_diagnostic_counterexample:
  "diagnostics (fst (load_config_module (browser_world [] [])))
     (snd (load_config_module (browser_world [] []))) =
   diagnostics
     (fst (load_config_module (browser_world
        [[(''apiUrl'', JStr ''https://x''), (''environment'', JStr ''y'')]]
        [(''__APP_CONFIG__'', JObj 0)])))
     (snd (load_config_module (browser_world
        [[(''apiUrl'', JStr ''https://x''), (''environment'', JStr ''y'')]]
        [(''__APP_CONFIG__'', JObj 0)])))"
  by (simp add: diagnostics_def getConfig_def load_config_module_def browser_world_def
      alloc_def console_log_def console_warn_def lookup_def validateConfig_def nth_append)

section \<open>The hook of utils/useConfig.ts\<close>

text \<open>
  C6. The first call of \<^verbatim>\<open>useConfig()\<close> returns the module's \<^verbatim>\<open>DEFAULT_CONFIG\<close> whatever the
  global binding is. If the accessor called by the effect, \<^verbatim>\<open>getClientConfig\<close>, returns a
  value in the world of the first commit, then in a session of any length the first render
  returns the default and every later render returns that value, however the global object
  changes in between; the effect runs once (one log entry is added) and the stored value is
  never replaced again. In a browser \<^verbatim>\<open>getClientConfig\<close> computes what \<^verbatim>\<open>getConfig\<close> computes
  from the same default (\<open>getClientConfig_browser\<close>).
\<close>

theorem C6_useConfig_default_then_accessor_result:
  "fst (useConfig D hook_init) = D \<and>
   (getClientConfig D (w\<lparr>window := Some win\<rparr>) = Inr (v, w') \<longrightarrow>
      session D (win # wins) hook_init w =
        Inr (D # replicate (length wins) v,
             \<lparr>config = Some v, effect_done = True\<rparr>,
             (console_log ''useConfig: Client-side config updated after hydration:'' [v] w')
               \<lparr>window := Some (last (win # wins))\<rparr>))"
proof (intro conjI impI)
  show "fst (useConfig D hook_init) = D"
    by (simp add: useConfig_def hook_init_def)
next
  assume a: "getClientConfig D (w\<lparr>window := Some win\<rparr>) = Inr (v, w')"
  have win: "window w' = Some win"
    using a
    by (auto simp: getClientConfig_def Let_def console_log_def console_warn_def
        split: if_splits sum.splits)
  have c: "commit D \<lparr>config = Some D, effect_done = False\<rparr> (w\<lparr>window := Some win\<rparr>) =
           Inr (\<lparr>config = Some v, effect_done = True\<rparr>,
                console_log ''useConfig: Client-side config updated after hydration:'' [v] w')"
    by (simp add: commit_def useConfig_effect_def a)
  show "session D (win # wins) hook_init w =
        Inr (D # replicate (length wins) v,
             \<lparr>config = Some v, effect_done = True\<rparr>,
             (console_log ''useConfig: Client-side config updated after hydration:'' [v] w')
               \<lparr>window := Some (last (win # wins))\<rparr>)"
    using win by (simp add: useConfig_def hook_init_def c session_hydrated console_log_def)
qed

theorem C6_useConfig_default_then_accessor_result_witness:
  "session (JObj 3)
     [[(''__APP_CONFIG__'', JObj 0)], [], [(''__APP_CONFIG__'', JStr ''changed'')]]
     hook_init
     (browser_world
        [[(''apiUrl'', JStr ''https://x''), (''environment'', JStr ''y''),
          (''features'', JObj 1)],
         [(''enableFeatureX'', JBool True)]] []) =
   Inr ([JObj 3, JObj 0, JObj 0],
        \<lparr>config = Some (JObj 0), effect_done = True\<rparr>,
        \<lparr>heap = [[(''apiUrl'', JStr ''https://x''), (''environment'', JStr ''y''),
                   (''features'', JObj 1)],
                  [(''enableFeatureX'', JBool True)]],
         window = Some [(''__APP_CONFIG__'', JStr ''changed'')],
         process_env = Map.empty,
         console = [(Log, ''Valid runtime config loaded:'', [JObj 0]),
                    (Log, ''useConfig: Client-side config updated after hydration:'',
                     [JObj 0])]\<rparr>)"
proof -
  let ?h = "[[(''apiUrl'', JStr ''https://x''), (''environment'', JStr ''y''),
              (''features'', JObj 1)],
             [(''enableFeatureX'', JBool True)]]"
  let ?win = "[(''__APP_CONFIG__'', JObj 0)]"
  have a: "getClientConfig (JObj 3) ((browser_world ?h [])\<lparr>window := Some ?win\<rparr>) =
           Inr (JObj 0, console_log ''Valid runtime config loaded:'' [JObj 0]
                          ((browser_world ?h [])\<lparr>window := Some ?win\<rparr>))"
    by (simp add: getClientConfig_def browser_world_def lookup_def validateConfig_hook_def
        Let_def)
  show ?thesis
    using C6_useConfig_default_then_accessor_result
      [where D = "JObj 3" and w = "browser_world ?h []" and win = ?win and v = "JObj 0"
         and wins = "[[], [(''__APP_CONFIG__'', JStr ''changed'')]]"] a
    by (simp add: browser_world_def console_log_def)
qed

section \<open>The two modules agree\<close>

text \<open>
  C10. The validator of the hook module returns, and throws, exactly as the validator of
  \<^verbatim>\<open>config.ts\<close> on every heap and value, and the \<^verbatim>\<open>DEFAULT_CONFIG\<close> objects that the two
  modules create read as the same three values.
\<close>

theorem C10_duplicates_agree:
  "validateConfig_hook h c = validateConfig h c \<and>
   read_config (heap (snd (load_useConfig_module w1))) (fst (load_useConfig_module w1)) =
     Inr hardcoded_default \<and>
   read_config (heap (snd (load_config_module w2))) (fst (load_config_module w2)) =
     Inr hardcoded_default"
  using load_config_module_default [of w2] load_useConfig_module_default [of w1]
    validateConfig_hook_eq [of h c]
  by (simp add: is_hardcoded_default_def)

end
